theory Spec2Isabelle
  imports Main "HOL-Library.AList"
begin

section \<open>Finance Manager: the keyword rule store and the categorisation of transactions\<close>

text \<open>
  A shallow embedding of \<^verbatim>\<open>src/main.py\<close>: the category dictionary kept in
  \<^verbatim>\<open>st.session_state.categories\<close>, its JSON file, the functions
  \<^verbatim>\<open>save_categories\<close>, \<^verbatim>\<open>categorize_transactions\<close>,
  \<^verbatim>\<open>load_transactions\<close>, \<^verbatim>\<open>add_keyword_to_category\<close> and
  \<^verbatim>\<open>remove_keyword_from_category\<close>, and the module-level code that loads the
  dictionary.
\<close>

subsection \<open>Strings: \<^verbatim>\<open>str.lower\<close> and \<^verbatim>\<open>str.strip\<close>\<close>

text \<open>
  A Python string is modelled as a \<^typ>\<open>string\<close> whose characters are the code points
  below 256. On these, \<^verbatim>\<open>str.isspace\<close> holds of the code points 9 to 13, 28 to 32,
  133 and 160, and \<^verbatim>\<open>str.lower\<close> adds 32 to the code points 65 to 90 (A to Z),
  192 to 214 and 216 to 222, leaving every other one as it is.
  \<^verbatim>\<open>str.strip()\<close> removes the leading and the trailing whitespace.
\<close>

definition isspace :: "char \<Rightarrow> bool" where
  "isspace c =
     (let n = (of_char c :: nat)
      in (9 \<le> n \<and> n \<le> 13) \<or> (28 \<le> n \<and> n \<le> 32) \<or> n = 133 \<or> n = 160)"

definition lower_char :: "char \<Rightarrow> char" where
  "lower_char c =
     (let n = (of_char c :: nat)
      in if (65 \<le> n \<and> n \<le> 90) \<or> (192 \<le> n \<and> n \<le> 214) \<or> (216 \<le> n \<and> n \<le> 222)
         then char_of (n + 32) else c)"

definition lower :: "string \<Rightarrow> string" where
  "lower s = map lower_char s"

definition strip :: "string \<Rightarrow> string" where
  "strip s = rev (dropWhile isspace (rev (dropWhile isspace s)))"

subsection \<open>The category dictionary, its file and the errors\<close>

text \<open>
  \<^verbatim>\<open>st.session_state.categories\<close> is a Python dictionary from category names to
  lists of keywords. A dictionary iterates in insertion order and
  \<^verbatim>\<open>categorize_transactions\<close> depends on that order, so it is an association list:
  \<^const>\<open>map_of\<close> is the lookup and \<^const>\<open>AList.update\<close> the assignment
  \<^verbatim>\<open>d[k] = v\<close>, which keeps the place of a key that is present and puts a new key
  last. The keys of a dictionary are distinct: \<open>distinct (map fst d)\<close>.
\<close>

type_synonym category_dict = "(string \<times> string list) list"

text \<open>
  What \<^verbatim>\<open>categories.json\<close> holds: no file, a file that cannot be opened, a file
  whose content \<^verbatim>\<open>json.load\<close> refuses, or the dictionary that
  \<^verbatim>\<open>json.dump\<close> wrote.
\<close>

datatype file_state = Missing | Unreadable | Corrupt | Snapshot category_dict

datatype py_error =
    KeyError string
  | OSError
  | JSONDecodeError
  | AttributeError_str_accessor
  | ValueError_astype_float
  | ValueError_to_datetime

text \<open>
  The state the functions work on: the dictionary of the session, the file, and the
  number of times \<^verbatim>\<open>save_categories\<close> has written it. The counter is not in
  the source: it makes a write that leaves the file as it was visible. Writing the file is
  taken to succeed.
\<close>

record app_state =
  categories :: category_dict
  category_file :: file_state
  saves :: nat

text \<open>
  The module-level code, lines 12 to 19: a session without \<^verbatim>\<open>categories\<close>
  gets the default dictionary; then, if the file exists, it is opened and
  \<^verbatim>\<open>json.load\<close> replaces the dictionary. Nothing catches what
  \<^verbatim>\<open>open\<close> or \<^verbatim>\<open>json.load\<close> raise.
\<close>

definition default_categories :: category_dict where
  "default_categories = [(''UNcategorized'', [])]"

definition load_categories :: "category_dict option \<Rightarrow> file_state \<Rightarrow> py_error + category_dict" where
  "load_categories session f =
     (let cats = (case session of None \<Rightarrow> default_categories | Some d \<Rightarrow> d)
      in case f of
           Missing \<Rightarrow> Inr cats
         | Unreadable \<Rightarrow> Inl OSError
         | Corrupt \<Rightarrow> Inl JSONDecodeError
         | Snapshot d \<Rightarrow> Inr d)"

definition save_categories :: "app_state \<Rightarrow> app_state" where
  "save_categories s = s\<lparr>category_file := Snapshot (categories s), saves := Suc (saves s)\<rparr>"

subsection \<open>\<^verbatim>\<open>add_keyword_to_category\<close> and \<^verbatim>\<open>remove_keyword_from_category\<close>\<close>

text \<open>
  \<^verbatim>\<open>add_keyword_to_category\<close>: the keyword is stripped; \<^verbatim>\<open>not keyword or
  keyword in categories[category]\<close> evaluates the index only for a keyword that is not
  empty, and the index raises \<^verbatim>\<open>KeyError\<close> for a category that is not a key.
  The result is the error, or the returned boolean and the new state.
\<close>

definition add_keyword_to_category ::
    "app_state \<Rightarrow> string \<Rightarrow> string \<Rightarrow> py_error + (bool \<times> app_state)" where
  "add_keyword_to_category s category keyword =
     (let keyword = strip keyword
      in if keyword = [] then Inr (False, s)
         else case map_of (categories s) category of
                None \<Rightarrow> Inl (KeyError category)
              | Some keywords \<Rightarrow>
                  if keyword \<in> set keywords then Inr (False, s)
                  else Inr (True,
                    save_categories
                      (s\<lparr>categories := AList.update category (keywords @ [keyword]) (categories s)\<rparr>)))"

text \<open>
  \<^verbatim>\<open>remove_keyword_from_category\<close>: \<^verbatim>\<open>categories.get(category, [])\<close>
  gives the empty list for a category that is not a key; the dictionary is assigned and
  saved only when the filtered list is shorter.
\<close>

definition remove_keyword_from_category :: "app_state \<Rightarrow> string \<Rightarrow> string \<Rightarrow> app_state" where
  "remove_keyword_from_category s category keyword =
     (let keyword = lower (strip keyword);
          keywords = (case map_of (categories s) category of None \<Rightarrow> [] | Some kws \<Rightarrow> kws);
          updated_keywords = filter (\<lambda>kw. lower (strip kw) \<noteq> keyword) keywords
      in if length updated_keywords \<noteq> length keywords
         then save_categories (s\<lparr>categories := AList.update category updated_keywords (categories s)\<rparr>)
         else s)"

subsection \<open>\<^verbatim>\<open>categorize_transactions\<close>\<close>

text \<open>
  A row of the data frame. \<open>'d\<close> is the type of the dates and \<open>'a\<close> of the amounts:
  text and cells as \<^verbatim>\<open>pd.read_csv\<close> returns them, and a timestamp and a float
  after \<^verbatim>\<open>load_transactions\<close> has converted them. A transaction is a row with
  the column \<^verbatim>\<open>Category\<close>. The cells of \<^verbatim>\<open>Details\<close> are strings.
\<close>

record ('d, 'a) row =
  Date :: 'd
  Details :: string
  Amount :: 'a
  Debit_Credit :: string
  Status :: string

record ('d, 'a) transaction = "('d, 'a) row" +
  Category :: string

text \<open>
  \<^verbatim>\<open>df["Category"] = "Uncategorised"\<close> adds the column to a frame that has none and
  overwrites it in a frame that has one.
\<close>

definition set_category_column :: "('d, 'a, 'z) row_scheme \<Rightarrow> ('d, 'a) transaction" where
  "set_category_column r =
     \<lparr>Date = Date r, Details = Details r, Amount = Amount r,
      Debit_Credit = Debit_Credit r, Status = Status r, Category = ''Uncategorised''\<rparr>"

text \<open>The inner loop over the rows, for one category and its lowered keywords.\<close>

definition categorize_rows ::
    "string \<Rightarrow> string list \<Rightarrow> ('d, 'a) transaction list \<Rightarrow> ('d, 'a) transaction list" where
  "categorize_rows category lowered_keywords df =
     map (\<lambda>r. if strip (lower (Details r)) \<in> set lowered_keywords
               then r\<lparr>Category := category\<rparr> else r) df"

text \<open>The outer loop over the items of the dictionary, in their order.\<close>

fun categorize_loop ::
    "category_dict \<Rightarrow> ('d, 'a) transaction list \<Rightarrow> ('d, 'a) transaction list" where
  "categorize_loop [] df = df"
| "categorize_loop ((category, keywords) # items) df =
     (if category = ''Uncategorised'' \<or> keywords = [] then categorize_loop items df
      else categorize_loop items
             (categorize_rows category (map (\<lambda>keyword. strip (lower keyword)) keywords) df))"

definition categorize_transactions ::
    "category_dict \<Rightarrow> ('d, 'a, 'z) row_scheme list \<Rightarrow> ('d, 'a) transaction list" where
  "categorize_transactions cats df = categorize_loop cats (map set_category_column df)"

subsection \<open>\<^verbatim>\<open>load_transactions\<close>\<close>

text \<open>
  The frame is the one \<^verbatim>\<open>pd.read_csv\<close> returned, its column names stripped,
  with the columns \<^verbatim>\<open>Date\<close>, \<^verbatim>\<open>Details\<close>,
  \<^verbatim>\<open>Amount\<close>, \<^verbatim>\<open>Debit/Credit\<close> and \<^verbatim>\<open>Status\<close>
  present. A cell of the column \<^verbatim>\<open>Amount\<close> is one of three things: a string,
  for a field that \<^verbatim>\<open>pd.read_csv\<close> left as text (\<^verbatim>\<open>2,500.00\<close>,
  \<^verbatim>\<open>abc\<close>); the missing value \<^verbatim>\<open>NaN\<close>, which is what
  \<^verbatim>\<open>pd.read_csv\<close> returns for an empty field and for its default markers of a
  missing value, such as \<^verbatim>\<open>N/A\<close>, \<^verbatim>\<open>NA\<close> and
  \<^verbatim>\<open>null\<close>; or another value that is not a string, a number that
  \<^verbatim>\<open>pd.read_csv\<close> has parsed. The cells of the other columns are text.
\<close>

datatype csv_cell = Str string | NaN | Number

text \<open>
  A float after the conversion: a value, or \<^verbatim>\<open>nan\<close>.
\<close>

datatype 'a py_float = Float 'a | Float_nan

text \<open>
  Line 48, \<^verbatim>\<open>df["Amount"].str.replace(",", "").astype(float)\<close>, in its three steps.
  The accessor \<^verbatim>\<open>.str\<close> raises \<^verbatim>\<open>AttributeError\<close> for a column that
  has rows and no string among them (a column of numbers, or of missing values only).
  \<^verbatim>\<open>.str.replace\<close> removes the commas of a string and gives
  \<^verbatim>\<open>NaN\<close>, here \<open>None\<close>, for every cell that is not a string.
  \<^verbatim>\<open>astype(float)\<close> converts each string, raising \<^verbatim>\<open>ValueError\<close>
  for one that is not a float literal, and turns \<^verbatim>\<open>NaN\<close> into the float
  \<^verbatim>\<open>nan\<close> without raising.

  The conversions of pandas are parameters: \<open>to_float\<close> is the conversion of one
  string by \<^verbatim>\<open>astype(float)\<close> and \<open>to_datetime\<close> the one of
  \<^verbatim>\<open>pd.to_datetime(_, format="%d %b %Y")\<close>, each \<open>None\<close> where pandas raises
  \<^verbatim>\<open>ValueError\<close>. A column is converted as a whole, the amounts before the dates,
  and the first exception ends the \<^verbatim>\<open>try\<close> block: the handler reports it with
  \<^verbatim>\<open>st.error\<close> and the function returns \<^verbatim>\<open>None\<close>, which is the
  result \<open>Inl\<close> of the error here.
\<close>

definition is_Str :: "csv_cell \<Rightarrow> bool" where
  "is_Str c = (case c of Str s \<Rightarrow> True | NaN \<Rightarrow> False | Number \<Rightarrow> False)"

definition str_accessor :: "csv_cell list \<Rightarrow> py_error + csv_cell list" where
  "str_accessor col =
     (if col = [] \<or> list_ex is_Str col then Inr col else Inl AttributeError_str_accessor)"

definition str_replace_comma :: "string \<Rightarrow> string" where
  "str_replace_comma s = filter (\<lambda>c. c \<noteq> CHR '','') s"

definition str_replace :: "csv_cell \<Rightarrow> string option" where
  "str_replace c =
     (case c of Str s \<Rightarrow> Some (str_replace_comma s) | NaN \<Rightarrow> None | Number \<Rightarrow> None)"

definition astype_float :: "(string \<Rightarrow> 'a py_float option) \<Rightarrow> string option \<Rightarrow> 'a py_float option" where
  "astype_float to_float v = (case v of None \<Rightarrow> Some Float_nan | Some s \<Rightarrow> to_float s)"

fun convert_column :: "('b \<Rightarrow> 'c option) \<Rightarrow> 'b list \<Rightarrow> 'c list option" where
  "convert_column conv [] = Some []"
| "convert_column conv (x # xs) =
     (case conv x of
        None \<Rightarrow> None
      | Some y \<Rightarrow> (case convert_column conv xs of None \<Rightarrow> None | Some ys \<Rightarrow> Some (y # ys)))"

definition load_transactions ::
    "(string \<Rightarrow> 'a py_float option) \<Rightarrow> (string \<Rightarrow> 'd option) \<Rightarrow> category_dict
      \<Rightarrow> (string, csv_cell) row list \<Rightarrow> py_error + ('d, 'a py_float) transaction list" where
  "load_transactions to_float to_datetime cats df =
     (case str_accessor (map Amount df) of
        Inl e \<Rightarrow> Inl e
      | Inr col \<Rightarrow>
          (case convert_column (astype_float to_float) (map str_replace col) of
             None \<Rightarrow> Inl ValueError_astype_float
           | Some amounts \<Rightarrow>
               (case convert_column to_datetime (map Date df) of
                  None \<Rightarrow> Inl ValueError_to_datetime
                | Some dates \<Rightarrow>
                    Inr (categorize_transactions cats
                           (map (\<lambda>(r, d, a). \<lparr>Date = d, Details = Details r, Amount = a,
                                               Debit_Credit = Debit_Credit r, Status = Status r\<rparr>)
                                (zip df (zip dates amounts)))))))"

subsection \<open>The category of one row\<close>

text \<open>
  Two notions for the proofs about \<^const>\<open>categorize_transactions\<close>, both read off its
  loops. An item of the dictionary matches the details of a row when its category is not
  \<^verbatim>\<open>Uncategorised\<close> and one of its keywords, lowered and stripped, is the lowered
  and stripped details: these are the items for which the inner loop assigns the row.
  \<open>assigned_category\<close> follows one row through the outer loop: \<open>c\<close> is the category
  the row has when the loop reaches the items.
\<close>

definition matches :: "string \<Rightarrow> string \<times> string list \<Rightarrow> bool" where
  "matches details item \<longleftrightarrow>
     fst item \<noteq> ''Uncategorised''
     \<and> (\<exists>keyword\<in>set (snd item). strip (lower keyword) = strip (lower details))"

fun assigned_category :: "category_dict \<Rightarrow> string \<Rightarrow> string \<Rightarrow> string" where
  "assigned_category [] details c = c"
| "assigned_category ((category, keywords) # items) details c =
     (if category \<noteq> ''Uncategorised''
         \<and> strip (lower details) \<in> set (map (\<lambda>keyword. strip (lower keyword)) keywords)
      then assigned_category items details category
      else assigned_category items details c)"

section \<open>Properties\<close>

subsection \<open>Facts about lists, \<^const>\<open>lower\<close> and \<^const>\<open>strip\<close>\<close>

lemma length_filter_eq_conv:
  "length (filter P xs) = length xs \<longleftrightarrow> filter P xs = xs"
proof
  assume len: "length (filter P xs) = length xs"
  have "\<forall>x\<in>set xs. P x"
  proof (rule ccontr)
    assume "\<not> (\<forall>x\<in>set xs. P x)"
    then obtain x where "x \<in> set xs" "\<not> P x" by blast
    then have "length (filter P xs) < length xs" by (rule length_filter_less)
    with len show False by simp
  qed
  then show "filter P xs = xs" by (simp add: filter_id_conv)
qed simp

lemma of_char_lower_char:
  "(of_char (lower_char c) :: nat) =
     (let n = of_char c
      in if (65 \<le> n \<and> n \<le> 90) \<or> (192 \<le> n \<and> n \<le> 214) \<or> (216 \<le> n \<and> n \<le> 222)
         then n + 32 else n)"
  unfolding lower_char_def Let_def
  by (auto simp: of_char_of take_bit_eq_mod)

lemma isspace_lower_char: "isspace (lower_char c) = isspace c"
  unfolding isspace_def of_char_lower_char
  by (auto simp: Let_def)

lemma strip_lower: "strip (lower s) = lower (strip s)"
  by (simp add: strip_def lower_def dropWhile_map rev_map comp_def isspace_lower_char)

lemma dropWhile_hd_id: "xs = [] \<or> \<not> P (hd xs) \<Longrightarrow> dropWhile P xs = xs"
  by (cases xs) auto

lemma strip_head: "strip s = [] \<or> \<not> isspace (hd (strip s))"
proof -
  define t where "t = dropWhile isspace s"
  define u where "u = dropWhile isspace (rev t)"
  have ht: "t = [] \<or> \<not> isspace (hd t)"
    unfolding t_def by (metis hd_dropWhile)
  have "rev t = takeWhile isspace (rev t) @ u"
    by (simp add: u_def)
  then have "rev (rev t) = rev (takeWhile isspace (rev t) @ u)" by simp
  then have t_eq: "t = rev u @ rev (takeWhile isspace (rev t))" by simp
  have "rev u = [] \<or> \<not> isspace (hd (rev u))"
  proof (cases "rev u")
    case Nil then show ?thesis by simp
  next
    case (Cons a as)
    with t_eq have "t = a # (as @ rev (takeWhile isspace (rev t)))" by simp
    then obtain r where "t = a # r" by blast
    with ht Cons show ?thesis by simp
  qed
  then show ?thesis by (simp add: strip_def t_def u_def)
qed

lemma strip_last: "strip s = [] \<or> \<not> isspace (last (strip s))"
proof -
  define u where "u = dropWhile isspace (rev (dropWhile isspace s))"
  have "u = [] \<or> \<not> isspace (hd u)" unfolding u_def by (metis hd_dropWhile)
  then show ?thesis
    by (auto simp: strip_def u_def[symmetric] last_rev)
qed

lemma strip_idem: "strip (strip s) = strip s"
proof -
  have 1: "dropWhile isspace (strip s) = strip s"
    using strip_head[of s] by (rule dropWhile_hd_id)
  have "rev (strip s) = [] \<or> \<not> isspace (hd (rev (strip s)))"
    using strip_last[of s] by (auto simp: hd_rev)
  then have 2: "dropWhile isspace (rev (strip s)) = rev (strip s)"
    by (rule dropWhile_hd_id)
  show ?thesis
    unfolding strip_def[of "strip s"] 1 2 by simp
qed

subsection \<open>Facts about the operations of the rule store\<close>

lemma add_keyword_to_category_new:
  assumes "map_of (categories s) C = Some kws" and "strip k \<noteq> []" and "strip k \<notin> set kws"
  shows "add_keyword_to_category s C k =
           Inr (True, save_categories
                  (s\<lparr>categories := AList.update C (kws @ [strip k]) (categories s)\<rparr>))"
  using assms by (simp add: add_keyword_to_category_def Let_def)

lemma categories_remove_keyword:
  "categories (remove_keyword_from_category s C k) =
     (case map_of (categories s) C of
        None \<Rightarrow> categories s
      | Some kws \<Rightarrow> AList.update C (filter (\<lambda>kw. lower (strip kw) \<noteq> lower (strip k)) kws) (categories s))"
  by (auto simp: remove_keyword_from_category_def save_categories_def Let_def
        length_filter_eq_conv AList.update_triv split: option.splits)

lemma distinct_remove_keyword:
  "distinct (map fst (categories s)) \<Longrightarrow>
     distinct (map fst (categories (remove_keyword_from_category s C k)))"
  by (simp add: categories_remove_keyword AList.distinct_update split: option.splits)

lemma map_of_remove_keyword:
  "map_of (categories (remove_keyword_from_category s C k)) c =
     (if c = C then map_option (filter (\<lambda>kw. lower (strip kw) \<noteq> lower (strip k))) (map_of (categories s) C)
      else map_of (categories s) c)"
  by (simp add: categories_remove_keyword AList.update_conv' split: option.splits)

lemma set_update_subset: "set (AList.update k v al) \<subseteq> insert (k, v) (set al)"
  by (induction al) auto

subsection \<open>Facts about the loops of \<^const>\<open>categorize_transactions\<close>\<close>

lemma categorize_loop_rows:
  "categorize_loop cats df =
     map (\<lambda>r. r\<lparr>Category := assigned_category cats (Details r) (Category r)\<rparr>) df"
proof (induction cats arbitrary: df)
  case Nil
  show ?case by simp
next
  case (Cons item cats)
  obtain category kws where item: "item = (category, kws)" by (cases item)
  show ?case
    unfolding item
    by (auto simp: Cons.IH categorize_rows_def)
qed

lemma categorize_transactions_rows:
  "categorize_transactions cats df =
     map (\<lambda>r. (set_category_column r)\<lparr>Category := assigned_category cats (Details r) ''Uncategorised''\<rparr>) df"
  by (simp add: categorize_transactions_def categorize_loop_rows set_category_column_def comp_def)

lemma assigned_category_no_match:
  "\<forall>item\<in>set cats. \<not> matches details item \<Longrightarrow> assigned_category cats details c = c"
  by (induction cats arbitrary: c) (fastforce simp: matches_def)+

lemma assigned_category_append:
  "assigned_category (xs @ ys) details c = assigned_category ys details (assigned_category xs details c)"
  by (induction xs arbitrary: c) auto

lemma assigned_category_last:
  assumes "matches details (category, keywords)"
      and "\<forall>item\<in>set after. \<not> matches details item"
  shows "assigned_category (before @ (category, keywords) # after) details c = category"
proof -
  have "assigned_category ((category, keywords) # after) details c' = category" for c'
    using assms by (auto simp: matches_def assigned_category_no_match image_iff)
  then show ?thesis by (simp only: assigned_category_append)
qed

lemma assigned_category_match:
  "\<exists>item\<in>set cats. matches details item \<Longrightarrow>
     \<exists>keywords. (assigned_category cats details c, keywords) \<in> set cats
        \<and> matches details (assigned_category cats details c, keywords)"
proof (induction cats arbitrary: c)
  case Nil
  then show ?case by simp
next
  case (Cons item cats)
  obtain category kws where item: "item = (category, kws)" by (cases item)
  show ?case
  proof (cases "\<exists>i\<in>set cats. matches details i")
    case True
    from Cons.IH[OF True] show ?thesis
      unfolding item by (auto)
  next
    case False
    with Cons.prems have m: "matches details (category, kws)" by (auto simp: item)
    from False have "\<forall>i\<in>set cats. \<not> matches details i" by blast
    from assigned_category_last[OF m this, of "[]" c] m show ?thesis
      unfolding item by auto
  qed
qed


subsection \<open>The rule store\<close>

text \<open>
  Claim C3. For a category \<open>C\<close> that is a key of the dictionary, with keywords
  \<open>kws\<close>, \<^const>\<open>add_keyword_to_category\<close> works on the stripped keyword. If
  that is empty or already in \<open>kws\<close>, it returns \<open>False\<close> and the state is the
  one before: the dictionary, the file and the number of writes. Otherwise it returns
  \<open>True\<close>, the stripped keyword is appended to the list of \<open>C\<close>, the file holds
  the new dictionary and one write has been made.
\<close>

theorem add_keyword_to_category_present:
  assumes "map_of (categories s) C = Some kws"
  shows "if strip k = [] \<or> strip k \<in> set kws
         then add_keyword_to_category s C k = Inr (False, s)
         else (\<exists>s'. add_keyword_to_category s C k = Inr (True, s')
                \<and> categories s' = AList.update C (kws @ [strip k]) (categories s)
                \<and> category_file s' = Snapshot (categories s')
                \<and> saves s' = Suc (saves s))"
  using assms by (simp add: add_keyword_to_category_def save_categories_def Let_def)

theorem add_keyword_to_category_present_witness:
  "map_of (categories \<lparr>categories = [(''Groceries'', [''carrefour''])], category_file = Missing, saves = 0\<rparr>)
      ''Groceries'' = Some [''carrefour'']
   \<and> add_keyword_to_category
        \<lparr>categories = [(''Groceries'', [''carrefour''])], category_file = Missing, saves = 0\<rparr>
        ''Groceries'' '' carrefour '' =
      Inr (False, \<lparr>categories = [(''Groceries'', [''carrefour''])], category_file = Missing, saves = 0\<rparr>)
   \<and> add_keyword_to_category
        \<lparr>categories = [(''Groceries'', [''carrefour''])], category_file = Missing, saves = 0\<rparr>
        ''Groceries'' ''   '' =
      Inr (False, \<lparr>categories = [(''Groceries'', [''carrefour''])], category_file = Missing, saves = 0\<rparr>)
   \<and> add_keyword_to_category
        \<lparr>categories = [(''Groceries'', [''carrefour''])], category_file = Missing, saves = 0\<rparr>
        ''Groceries'' '' Lidl'' =
      Inr (True, \<lparr>categories = [(''Groceries'', [''carrefour'', ''Lidl''])],
                  category_file = Snapshot [(''Groceries'', [''carrefour'', ''Lidl''])], saves = 1\<rparr>)"
proof -
  let ?s = "\<lparr>categories = [(''Groceries'', [''carrefour''])], category_file = Missing, saves = 0\<rparr>"
  have h: "map_of (categories ?s) ''Groceries'' = Some [''carrefour'']" by simp
  have e1: "strip '' carrefour '' = ''carrefour''" by code_simp
  have e2: "strip ''   '' = []" by code_simp
  have e3: "strip '' Lidl'' = ''Lidl''" by code_simp
  from add_keyword_to_category_present[OF h, of "'' carrefour ''"]
       add_keyword_to_category_present[OF h, of "''   ''"]
       add_keyword_to_category_present[OF h, of "'' Lidl''"] h
  show ?thesis unfolding e1 e2 e3 by auto
qed

text \<open>
  Claim C4. \<^const>\<open>remove_keyword_from_category\<close> strips and lowers the keyword and
  keeps, of the keywords of \<open>C\<close> (none when \<open>C\<close> is not a key), those whose
  stripped and lowered form differs from it. If nothing was removed the state is the one
  before, so nothing is written; if something was removed the list of \<open>C\<close> is the
  kept keywords, the file holds the new dictionary and one write has been made.
\<close>

theorem remove_keyword_from_category_spec:
  "(let kws = (case map_of (categories s) C of None \<Rightarrow> [] | Some l \<Rightarrow> l);
        kept = filter (\<lambda>kw. lower (strip kw) \<noteq> lower (strip k)) kws;
        s' = remove_keyword_from_category s C k
    in if kept = kws then s' = s
       else categories s' = AList.update C kept (categories s)
            \<and> category_file s' = Snapshot (categories s')
            \<and> saves s' = Suc (saves s))"
  by (simp add: remove_keyword_from_category_def save_categories_def Let_def
        length_filter_eq_conv)

theorem remove_keyword_from_category_spec_witness:
  "categories (remove_keyword_from_category
       \<lparr>categories = [(''Groceries'', [''Carrefour'', ''lidl'', '' carrefour '']), (''Food'', [])],
        category_file = Missing, saves = 0\<rparr> ''Groceries'' ''CARREFOUR '')
     = [(''Groceries'', [''lidl'']), (''Food'', [])]
   \<and> category_file (remove_keyword_from_category
       \<lparr>categories = [(''Groceries'', [''Carrefour'', ''lidl'', '' carrefour '']), (''Food'', [])],
        category_file = Missing, saves = 0\<rparr> ''Groceries'' ''CARREFOUR '')
     = Snapshot [(''Groceries'', [''lidl'']), (''Food'', [])]
   \<and> saves (remove_keyword_from_category
       \<lparr>categories = [(''Groceries'', [''Carrefour'', ''lidl'', '' carrefour '']), (''Food'', [])],
        category_file = Missing, saves = 0\<rparr> ''Groceries'' ''CARREFOUR '') = 1
   \<and> remove_keyword_from_category
       \<lparr>categories = [(''Groceries'', [''Carrefour'', ''lidl'', '' carrefour '']), (''Food'', [])],
        category_file = Missing, saves = 0\<rparr> ''Groceries'' ''aldi''
     = \<lparr>categories = [(''Groceries'', [''Carrefour'', ''lidl'', '' carrefour '']), (''Food'', [])],
        category_file = Missing, saves = 0\<rparr>"
proof -
  let ?s = "\<lparr>categories = [(''Groceries'', [''Carrefour'', ''lidl'', '' carrefour '']), (''Food'', [])],
             category_file = Missing, saves = 0\<rparr>"
  have e: "lower (strip ''Carrefour'') = ''carrefour''" "lower (strip ''lidl'') = ''lidl''"
    "lower (strip '' carrefour '') = ''carrefour''" "lower (strip ''CARREFOUR '') = ''carrefour''"
    "lower (strip ''aldi'') = ''aldi''"
    by code_simp+
  from remove_keyword_from_category_spec[of ?s "''Groceries''" "''CARREFOUR ''"]
       remove_keyword_from_category_spec[of ?s "''Groceries''" "''aldi''"]
  show ?thesis by (simp add: e Let_def)
qed

text \<open>
  Claim C10. For a category \<open>C\<close> that is not a key of the dictionary,
  \<^const>\<open>add_keyword_to_category\<close> raises \<^verbatim>\<open>KeyError\<close> for a keyword whose
  stripped form is not empty (and returns \<open>False\<close> for one whose stripped form is
  empty, the index not being evaluated), while \<^const>\<open>remove_keyword_from_category\<close>
  returns with the state it was given: the dictionary, the file and the number of writes.
\<close>

theorem add_remove_absent_category:
  assumes "map_of (categories s) C = None"
  shows "(strip k \<noteq> [] \<longrightarrow> add_keyword_to_category s C k = Inl (KeyError C))
         \<and> (strip k = [] \<longrightarrow> add_keyword_to_category s C k = Inr (False, s))
         \<and> remove_keyword_from_category s C k' = s"
  using assms
  by (simp add: add_keyword_to_category_def remove_keyword_from_category_def Let_def)

theorem add_remove_absent_category_witness:
  "map_of (categories \<lparr>categories = [(''Groceries'', [''carrefour''])], category_file = Missing, saves = 0\<rparr>)
      ''Food'' = None
   \<and> strip ''aldi'' \<noteq> []
   \<and> add_keyword_to_category
        \<lparr>categories = [(''Groceries'', [''carrefour''])], category_file = Missing, saves = 0\<rparr>
        ''Food'' ''aldi'' = Inl (KeyError ''Food'')
   \<and> remove_keyword_from_category
        \<lparr>categories = [(''Groceries'', [''carrefour''])], category_file = Missing, saves = 0\<rparr>
        ''Food'' ''carrefour''
      = \<lparr>categories = [(''Groceries'', [''carrefour''])], category_file = Missing, saves = 0\<rparr>"
proof -
  let ?s = "\<lparr>categories = [(''Groceries'', [''carrefour''])], category_file = Missing, saves = 0\<rparr>"
  have h: "map_of (categories ?s) ''Food'' = None" by simp
  have e: "strip ''aldi'' = ''aldi''" by code_simp
  from add_remove_absent_category[OF h, of "''aldi''" "''carrefour''"] h e
  show ?thesis by simp
qed

text \<open>
  Claim C2, as amended. Let the keys of the dictionary be distinct, \<open>C2\<close> a key other
  than \<open>C1\<close>, and the stripped keyword \<open>strip k\<close> not empty and in no list but
  possibly the one of \<open>C1\<close>. Then \<^const>\<open>remove_keyword_from_category\<close> for
  \<open>C1\<close> followed by \<^const>\<open>add_keyword_to_category\<close> for \<open>C2\<close> returns
  \<open>True\<close>, the list of \<open>C2\<close> is the old one with \<open>strip k\<close> appended, and
  \<open>strip k\<close> is in the list of a category exactly when the category is \<open>C2\<close>: in
  particular it is not in the list of \<open>C1\<close>.
\<close>

theorem remove_then_add_exclusive:
  assumes keys: "distinct (map fst (categories s))"
      and ne: "C2 \<noteq> C1"
      and present: "map_of (categories s) C2 = Some kws2"
      and nonempty: "strip k \<noteq> []"
      and only: "\<forall>(c, kws)\<in>set (categories s). c \<noteq> C1 \<longrightarrow> strip k \<notin> set kws"
  shows "\<exists>s'. add_keyword_to_category (remove_keyword_from_category s C1 k) C2 k = Inr (True, s')
           \<and> map_of (categories s') C2 = Some (kws2 @ [strip k])
           \<and> (\<forall>(c, kws)\<in>set (categories s'). strip k \<in> set kws \<longleftrightarrow> c = C2)"
proof -
  let ?s1 = "remove_keyword_from_category s C1 k"
  let ?s' = "save_categories (?s1\<lparr>categories := AList.update C2 (kws2 @ [strip k]) (categories ?s1)\<rparr>)"
  have l2: "map_of (categories ?s1) C2 = Some kws2"
    using ne present by (simp add: map_of_remove_keyword)
  have "(C2, kws2) \<in> set (categories s)"
    using present by (rule map_of_SomeD)
  with only ne have fresh: "strip k \<notin> set kws2" by auto
  have add: "add_keyword_to_category ?s1 C2 k = Inr (True, ?s')"
    using l2 nonempty fresh by (rule add_keyword_to_category_new)
  have cats: "categories ?s' = AList.update C2 (kws2 @ [strip k]) (categories ?s1)"
    by (simp add: save_categories_def)
  have d1: "distinct (map fst (categories ?s1))"
    using keys by (rule distinct_remove_keyword)
  then have d': "distinct (map fst (categories ?s'))"
    by (simp add: cats AList.distinct_update)
  have look: "map_of (categories ?s') C2 = Some (kws2 @ [strip k])"
    by (simp add: cats AList.update_conv')
  have excl: "strip k \<in> set kws \<longleftrightarrow> c = C2" if mem: "(c, kws) \<in> set (categories ?s')" for c kws
  proof -
    from mem d' have m: "map_of (categories ?s') c = Some kws" by simp
    show ?thesis
    proof (cases "c = C2")
      case True
      with m look show ?thesis by auto
    next
      case False
      with m have m1: "map_of (categories ?s1) c = Some kws"
        by (simp add: cats AList.update_conv')
      show ?thesis
      proof (cases "c = C1")
        case True
        with m1 obtain kws1 where "kws = filter (\<lambda>kw. lower (strip kw) \<noteq> lower (strip k)) kws1"
          by (auto simp: map_of_remove_keyword)
        then have "strip k \<notin> set kws" by (simp add: strip_idem)
        with False show ?thesis by simp
      next
        case c1: False
        with m1 have "map_of (categories s) c = Some kws"
          by (simp add: map_of_remove_keyword)
        then have "(c, kws) \<in> set (categories s)" by (rule map_of_SomeD)
        with only c1 have "strip k \<notin> set kws" by auto
        with False show ?thesis by simp
      qed
    qed
  qed
  from add look excl show ?thesis by blast
qed

theorem remove_then_add_exclusive_witness:
  "add_keyword_to_category
     (remove_keyword_from_category
        \<lparr>categories = [(''Groceries'', [''carrefour'']), (''Food'', [])], category_file = Missing, saves = 0\<rparr>
        ''Groceries'' ''Carrefour '')
     ''Food'' ''Carrefour ''
   = Inr (True, \<lparr>categories = [(''Groceries'', []), (''Food'', [''Carrefour''])],
                  category_file = Snapshot [(''Groceries'', []), (''Food'', [''Carrefour''])], saves = 2\<rparr>)"
proof -
  let ?s = "\<lparr>categories = [(''Groceries'', [''carrefour'']), (''Food'', [])], category_file = Missing, saves = 0\<rparr>"
  have e: "strip ''Carrefour '' = ''Carrefour''" by code_simp
  have "\<exists>s'. add_keyword_to_category (remove_keyword_from_category ?s ''Groceries'' ''Carrefour '') ''Food'' ''Carrefour '' = Inr (True, s')
           \<and> map_of (categories s') ''Food'' = Some ([] @ [strip ''Carrefour ''])
           \<and> (\<forall>(c, kws)\<in>set (categories s'). strip ''Carrefour '' \<in> set kws \<longleftrightarrow> c = ''Food'')"
    by (rule remove_then_add_exclusive) (simp_all add: e)
  then obtain s' where r: "add_keyword_to_category (remove_keyword_from_category ?s ''Groceries'' ''Carrefour '') ''Food'' ''Carrefour '' = Inr (True, s')"
    by blast
  have "add_keyword_to_category (remove_keyword_from_category ?s ''Groceries'' ''Carrefour '') ''Food'' ''Carrefour ''
     = Inr (True, \<lparr>categories = [(''Groceries'', []), (''Food'', [''Carrefour''])],
                  category_file = Snapshot [(''Groceries'', []), (''Food'', [''Carrefour''])], saves = 2\<rparr>)"
    by code_simp
  with r show ?thesis by simp
qed

text \<open>
  The claim C2 as stated fails for a keyword of whitespace: \<^verbatim>\<open>" "\<close> is in the
  list of \<^verbatim>\<open>Groceries\<close> only; the removal takes it out, the addition strips it
  to the empty string and returns \<open>False\<close>, and the keyword is in no list.
\<close>

theorem remove_then_add_exclusive_counterexample:
  "add_keyword_to_category
     (remove_keyword_from_category
        \<lparr>categories = [(''Groceries'', ['' '']), (''Food'', [])], category_file = Missing, saves = 0\<rparr>
        ''Groceries'' '' '')
     ''Food'' '' ''
   = Inr (False, \<lparr>categories = [(''Groceries'', []), (''Food'', [])],
                  category_file = Snapshot [(''Groceries'', []), (''Food'', [])], saves = 1\<rparr>)"
  by code_simp

text \<open>
  Two more inputs show what the other hypotheses are for. A keyword with a leading space
  is stored stripped, so the keyword itself is in no list afterwards; and a category
  \<open>C2\<close> that is not a key makes the addition raise, after the removal has been saved.
\<close>

lemma remove_then_add_untrimmed_example:
  "add_keyword_to_category
     (remove_keyword_from_category
        \<lparr>categories = [(''Groceries'', ['' carrefour'']), (''Food'', [])], category_file = Missing, saves = 0\<rparr>
        ''Groceries'' '' carrefour'')
     ''Food'' '' carrefour''
   = Inr (True, \<lparr>categories = [(''Groceries'', []), (''Food'', [''carrefour''])],
                  category_file = Snapshot [(''Groceries'', []), (''Food'', [''carrefour''])], saves = 2\<rparr>)"
  by code_simp

lemma remove_then_add_absent_example:
  "add_keyword_to_category
     (remove_keyword_from_category
        \<lparr>categories = [(''Groceries'', [''carrefour''])], category_file = Missing, saves = 0\<rparr>
        ''Groceries'' ''carrefour'')
     ''Food'' ''carrefour''
   = Inl (KeyError ''Food'')"
  by code_simp

text \<open>
  Claim C8, as amended. If in every category the keywords are stripped (equal to their
  stripped form) and pairwise distinct, they are so after every
  \<^const>\<open>add_keyword_to_category\<close> that returns. The keyword is stored as stripped,
  not lowered.
\<close>

theorem add_keyword_keeps_trimmed_distinct:
  assumes inv: "\<forall>(c, kws)\<in>set (categories s). distinct kws \<and> (\<forall>kw\<in>set kws. strip kw = kw)"
      and add: "add_keyword_to_category s C k = Inr (b, s')"
  shows "\<forall>(c, kws)\<in>set (categories s'). distinct kws \<and> (\<forall>kw\<in>set kws. strip kw = kw)"
proof (cases b)
  case False
  with add have "s' = s"
    by (auto simp: add_keyword_to_category_def Let_def split: if_splits option.splits)
  with inv show ?thesis by simp
next
  case True
  with add obtain kws0 where look: "map_of (categories s) C = Some kws0"
      and fresh: "strip k \<notin> set kws0"
      and s': "categories s' = AList.update C (kws0 @ [strip k]) (categories s)"
    by (auto simp: add_keyword_to_category_def save_categories_def Let_def
          split: if_splits option.splits)
  from look have "(C, kws0) \<in> set (categories s)" by (rule map_of_SomeD)
  with inv have old: "distinct kws0" "\<forall>kw\<in>set kws0. strip kw = kw" by auto
  have new: "distinct (kws0 @ [strip k]) \<and> (\<forall>kw\<in>set (kws0 @ [strip k]). strip kw = kw)"
    using old fresh by (auto simp: strip_idem)
  show ?thesis
  proof (clarify)
    fix c kws assume "(c, kws) \<in> set (categories s')"
    then have "(c, kws) = (C, kws0 @ [strip k]) \<or> (c, kws) \<in> set (categories s)"
      using set_update_subset[of C "kws0 @ [strip k]" "categories s"] by (auto simp: s')
    then show "distinct kws \<and> (\<forall>kw\<in>set kws. strip kw = kw)"
      using new inv by auto
  qed
qed

theorem add_keyword_keeps_trimmed_distinct_witness:
  "add_keyword_to_category
     \<lparr>categories = [(''Groceries'', [''carrefour''])], category_file = Missing, saves = 0\<rparr>
     ''Groceries'' '' Lidl ''
   = Inr (True, \<lparr>categories = [(''Groceries'', [''carrefour'', ''Lidl''])],
                 category_file = Snapshot [(''Groceries'', [''carrefour'', ''Lidl''])], saves = 1\<rparr>)
   \<and> distinct [''carrefour'', ''Lidl'']
   \<and> strip ''carrefour'' = ''carrefour''
   \<and> strip ''Lidl'' = ''Lidl''"
proof -
  let ?s = "\<lparr>categories = [(''Groceries'', [''carrefour''])], category_file = Missing, saves = 0\<rparr>"
  let ?s' = "\<lparr>categories = [(''Groceries'', [''carrefour'', ''Lidl''])],
              category_file = Snapshot [(''Groceries'', [''carrefour'', ''Lidl''])], saves = 1\<rparr>"
  have e: "strip ''carrefour'' = ''carrefour''" by code_simp
  have inv: "\<forall>(c, kws)\<in>set (categories ?s). distinct kws \<and> (\<forall>kw\<in>set kws. strip kw = kw)"
    by (simp add: e)
  have add: "add_keyword_to_category ?s ''Groceries'' '' Lidl '' = Inr (True, ?s')"
    by code_simp
  from add_keyword_keeps_trimmed_distinct[OF inv add] add
  show ?thesis by simp
qed

text \<open>
  The claim C8 as stated fails: the keyword \<^verbatim>\<open>Carrefour\<close> is stored with its
  capital letter, which is not its lowered form.
\<close>

theorem add_keyword_keeps_trimmed_distinct_counterexample:
  "add_keyword_to_category
     \<lparr>categories = [(''Groceries'', [])], category_file = Missing, saves = 0\<rparr>
     ''Groceries'' ''Carrefour''
   = Inr (True, \<lparr>categories = [(''Groceries'', [''Carrefour''])],
                 category_file = Snapshot [(''Groceries'', [''Carrefour''])], saves = 1\<rparr>)
   \<and> lower (strip ''Carrefour'') = ''carrefour''
   \<and> ''Carrefour'' \<noteq> ''carrefour''"
  by code_simp

subsection \<open>Categorisation\<close>

text \<open>
  Claim C1, as amended. For one transaction \<open>T\<close> and any dictionary \<open>R\<close>,
  \<^const>\<open>categorize_transactions\<close> returns \<open>T\<close> with a category, and that category is
  \<^verbatim>\<open>Uncategorised\<close> if and only if no category of \<open>R\<close> other than
  \<^verbatim>\<open>Uncategorised\<close> has a keyword whose lowered, stripped form is the lowered,
  stripped details of \<open>T\<close>. The keywords listed under \<^verbatim>\<open>Uncategorised\<close> itself
  are never looked at.
\<close>

theorem categorize_uncategorised_iff:
  "\<exists>c. categorize_transactions R [T] = [(set_category_column T)\<lparr>Category := c\<rparr>]
      \<and> (c = ''Uncategorised'' \<longleftrightarrow>
           \<not> (\<exists>(category, keywords)\<in>set R. category \<noteq> ''Uncategorised''
                \<and> (\<exists>keyword\<in>set keywords. strip (lower keyword) = strip (lower (Details T)))))"
proof -
  let ?c = "assigned_category R (Details T) ''Uncategorised''"
  have eq: "categorize_transactions R [T] = [(set_category_column T)\<lparr>Category := ?c\<rparr>]"
    by (simp add: categorize_transactions_rows)
  have m: "(\<exists>(category, keywords)\<in>set R. category \<noteq> ''Uncategorised''
                \<and> (\<exists>keyword\<in>set keywords. strip (lower keyword) = strip (lower (Details T))))
        \<longleftrightarrow> (\<exists>item\<in>set R. matches (Details T) item)"
    by (force simp: matches_def)
  have "?c = ''Uncategorised'' \<longleftrightarrow> \<not> (\<exists>item\<in>set R. matches (Details T) item)"
  proof (cases "\<exists>item\<in>set R. matches (Details T) item")
    case True
    from assigned_category_match[OF True, of "''Uncategorised''"]
    have "?c \<noteq> ''Uncategorised''" by (auto simp: matches_def)
    with True show ?thesis by simp
  next
    case False
    then have "?c = ''Uncategorised''" by (simp add: assigned_category_no_match)
    with False show ?thesis by simp
  qed
  with eq m show ?thesis by blast
qed

theorem categorize_uncategorised_iff_witness:
  "map Category (categorize_transactions [(''Groceries'', [''carrefour'']), (''Uncategorised'', [])]
      [\<lparr>Date = ''05 Mar 2024'', Details = ''Unknown Shop'', Amount = (25::int),
        Debit_Credit = ''Debit'', Status = ''''\<rparr>]) = [''Uncategorised'']
   \<and> map Category (categorize_transactions [(''Groceries'', [''carrefour'']), (''Uncategorised'', [])]
      [\<lparr>Date = ''05 Mar 2024'', Details = ''Carrefour  '', Amount = (25::int),
        Debit_Credit = ''Debit'', Status = ''''\<rparr>]) \<noteq> [''Uncategorised'']"
proof -
  let ?R = "[(''Groceries'', [''carrefour'']), (''Uncategorised'', [])]"
  let ?T1 = "\<lparr>Date = ''05 Mar 2024'', Details = ''Unknown Shop'', Amount = (25::int),
        Debit_Credit = ''Debit'', Status = ''''\<rparr>"
  let ?T2 = "\<lparr>Date = ''05 Mar 2024'', Details = ''Carrefour  '', Amount = (25::int),
        Debit_Credit = ''Debit'', Status = ''''\<rparr>"
  have e: "strip (lower ''carrefour'') = ''carrefour''" "strip (lower ''Unknown Shop'') = ''unknown shop''"
    "strip (lower ''Carrefour  '') = ''carrefour''"
    by code_simp+
  from categorize_uncategorised_iff[of ?R ?T1] categorize_uncategorised_iff[of ?R ?T2]
  show ?thesis by (auto simp: e)
qed

text \<open>
  The claim C1 without the amendment fails: the transaction with details
  \<^verbatim>\<open>foo\<close> is left \<^verbatim>\<open>Uncategorised\<close> although a category of the
  dictionary, \<^verbatim>\<open>Uncategorised\<close>, has the matching keyword \<^verbatim>\<open>Foo \<close>.
\<close>

theorem categorize_uncategorised_iff_counterexample:
  "map Category (categorize_transactions [(''Uncategorised'', [''Foo ''])]
      [\<lparr>Date = ''05 Mar 2024'', Details = ''foo'', Amount = (25::int), Debit_Credit = ''Debit'', Status = ''''\<rparr>])
    = [''Uncategorised'']
   \<and> (''Uncategorised'', [''Foo '']) \<in> set [(''Uncategorised'', [''Foo ''])]
   \<and> ''Foo '' \<in> set [''Foo '']
   \<and> strip (lower ''Foo '') = strip (lower ''foo'')"
  by code_simp



text \<open>
  Claim C7. Categorising the result of a categorisation with the same dictionary gives
  the same frame: the column \<^verbatim>\<open>Category\<close> is set anew from the details, which
  the function does not change.
\<close>

theorem categorize_idempotent:
  "categorize_transactions R (categorize_transactions R df) = categorize_transactions R df"
  by (simp add: categorize_transactions_rows comp_def set_category_column_def)

theorem categorize_idempotent_witness:
  "categorize_transactions [(''Groceries'', [''carrefour'']), (''Uncategorised'', [])]
     (categorize_transactions [(''Groceries'', [''carrefour'']), (''Uncategorised'', [])]
        [\<lparr>Date = ''05 Mar 2024'', Details = ''Carrefour  '', Amount = (25::int),
           Debit_Credit = ''Debit'', Status = ''''\<rparr>,
         \<lparr>Date = ''06 Mar 2024'', Details = ''Unknown Shop'', Amount = (7::int),
           Debit_Credit = ''Debit'', Status = ''''\<rparr>])
   = [\<lparr>Date = ''05 Mar 2024'', Details = ''Carrefour  '', Amount = (25::int),
        Debit_Credit = ''Debit'', Status = '''', Category = ''Groceries''\<rparr>,
      \<lparr>Date = ''06 Mar 2024'', Details = ''Unknown Shop'', Amount = (7::int),
        Debit_Credit = ''Debit'', Status = '''', Category = ''Uncategorised''\<rparr>]"
proof -
  let ?R = "[(''Groceries'', [''carrefour'']), (''Uncategorised'', [])]"
  let ?df = "[\<lparr>Date = ''05 Mar 2024'', Details = ''Carrefour  '', Amount = (25::int),
           Debit_Credit = ''Debit'', Status = ''''\<rparr>,
         \<lparr>Date = ''06 Mar 2024'', Details = ''Unknown Shop'', Amount = (7::int),
           Debit_Credit = ''Debit'', Status = ''''\<rparr>]"
  have "categorize_transactions ?R (categorize_transactions ?R ?df) = categorize_transactions ?R ?df"
    by (rule categorize_idempotent)
  also have "\<dots> = [\<lparr>Date = ''05 Mar 2024'', Details = ''Carrefour  '', Amount = (25::int),
        Debit_Credit = ''Debit'', Status = '''', Category = ''Groceries''\<rparr>,
      \<lparr>Date = ''06 Mar 2024'', Details = ''Unknown Shop'', Amount = (7::int),
        Debit_Credit = ''Debit'', Status = '''', Category = ''Uncategorised''\<rparr>]"
    by code_simp
  finally show ?thesis .
qed

subsection \<open>Loading the dictionary and the transactions\<close>

text \<open>
  Claim C5, as amended. The module-level load returns the dictionary of the file when
  the file holds one; it raises when the file exists and cannot be opened or parsed, with
  no fallback; without a file it returns the dictionary of the session, and in a session
  that has none a default dictionary of one category with no keywords.
\<close>

theorem load_categories_cases:
  "load_categories session (Snapshot d) = Inr d
   \<and> load_categories session Corrupt = Inl JSONDecodeError
   \<and> load_categories session Unreadable = Inl OSError
   \<and> load_categories (Some d') Missing = Inr d'
   \<and> (\<exists>name. load_categories None Missing = Inr [(name, [])])"
  by (simp add: load_categories_def default_categories_def)

theorem load_categories_cases_witness:
  "load_categories (Some [(''Groceries'', [''carrefour''])]) (Snapshot [(''Food'', [])]) = Inr [(''Food'', [])]
   \<and> load_categories (Some [(''Groceries'', [''carrefour''])]) Corrupt = Inl JSONDecodeError
   \<and> load_categories (Some [(''Groceries'', [''carrefour''])]) Unreadable = Inl OSError
   \<and> load_categories (Some [(''Groceries'', [''carrefour''])]) Missing = Inr [(''Groceries'', [''carrefour''])]"
  using load_categories_cases[of "Some [(''Groceries'', [''carrefour''])]" "[(''Food'', [])]"
          "[(''Groceries'', [''carrefour''])]"]
  by simp

text \<open>
  The claim C5 as stated fails: with a corrupt or an unreadable file the load raises, in
  a new session as well, and returns no dictionary.
\<close>

theorem load_categories_counterexample:
  "load_categories None Corrupt = Inl JSONDecodeError
   \<and> load_categories None Unreadable = Inl OSError"
  by (simp add: load_categories_def)




text \<open>
  A missing amount never makes the conversion fail, whatever \<open>to_float\<close> is: in a
  column that holds a string, every cell that is not a string becomes \<^verbatim>\<open>nan\<close>.
  And a column with rows and no string, one that \<^verbatim>\<open>pd.read_csv\<close> read as
  numbers or as missing values only, ends the load with the \<^verbatim>\<open>AttributeError\<close>
  of the accessor \<^verbatim>\<open>.str\<close>.
\<close>

lemma astype_float_missing:
  "\<not> is_Str c \<Longrightarrow> astype_float to_float (str_replace c) = Some Float_nan"
  by (cases c) (simp_all add: astype_float_def str_replace_def is_Str_def)

lemma load_transactions_no_string:
  assumes "df \<noteq> []" and "\<forall>r\<in>set df. \<not> is_Str (Amount r)"
  shows "load_transactions to_float to_datetime cats df = Inl AttributeError_str_accessor"
  using assms by (simp add: load_transactions_def str_accessor_def list_ex_iff)

end
